theory Spec2Isabelle
  imports Main "HOL-Library.Sublist"
begin

section \<open>The HipChat client of hipchat.go\<close>

text \<open>
  The client drives an XMPP connection of the package \<open>xmpp\<close>. That package is outside
  the file: its constants and the helper \<open>ToMap\<close> are parameters of the model (the record
  \<open>xmpp_lib\<close>), and what its connection delivers (\<open>Dial\<close>, \<open>Next\<close>, \<open>Features\<close>,
  \<open>Query\<close>, \<open>Body\<close>) is a script the functions consume. Every call that writes to the
  connection, every sleep, every goroutine started and every channel send is appended to
  a trace of events, in program order.
\<close>

subsection \<open>Constants and data\<close>

definition host :: string where
  "host = ''chat.hipchat.com''"

definition conf :: string where
  "conf = ''conf.hipchat.com''"

text \<open>\<open>xml.Name\<close>, \<open>xml.Attr\<close> and \<open>xml.StartElement\<close> of encoding/xml.\<close>

record xml_Name =
  Space :: string
  Local :: string

record xml_Attr =
  Name :: xml_Name
  Value :: string

record StartElement =
  Name :: xml_Name
  Attr :: "xml_Attr list"

text \<open>
  What the hipchat.go code reads of the values of package \<open>xmpp\<close>: the stream features
  (\<open>StartTLS\<close> is a pointer, \<open>None\<close> is nil), and a query with its items.
\<close>

record features =
  StartTLS :: "unit option"
  Mechanisms :: "string list"

record item =
  Jid :: string
  Name :: string
  MentionName :: string

record query =
  XMLName :: xml_Name
  Items :: "item list"

text \<open>
  The parameters standing for package \<open>xmpp\<close>: its namespace constants and its function
  \<open>ToMap\<close> from an attribute list to a Go map.
\<close>

record xmpp_lib =
  NsStream :: string
  NsTLS :: string
  NsJabberClient :: string
  NsDisco :: string
  NsIqRoster :: string
  ToMap :: "xml_Attr list \<Rightarrow> (string \<rightharpoonup> string)"

text \<open>The three values the client hands to its subscribers.\<close>

record Message =
  ID :: string
  From :: string
  To :: string
  Body :: string
  Type :: string

record User =
  Id :: string
  Name :: string
  MentionName :: string

record Room =
  Id :: string
  Name :: string

text \<open>
  An error value is either one that package \<open>xmpp\<close> returned (from \<open>Dial\<close> or \<open>Next\<close>) or
  one made by \<open>errors.New\<close> in hipchat.go; \<open>errors.New\<close> allocates, so its result is
  equal to no error that came from elsewhere.
\<close>

datatype error = XmppError string | errors_New string

text \<open>
  One successful \<open>Next()\<close>: the start element, together with what \<open>Features()\<close>,
  \<open>Query()\<close> and \<open>Body()\<close> decode when called right after it. A connection is the list
  of the results its \<open>Next()\<close> will give, an error (\<open>Inl\<close>) or a stanza (\<open>Inr\<close>); when the
  list is used up, \<open>Next()\<close> never returns.
\<close>

record stanza =
  element :: StartElement
  Features :: features
  Query :: query
  Body :: string

record Conn =
  incoming :: "(error + stanza) list"

text \<open>The calls on the connection that write to the server.\<close>

datatype conn_call =
    Conn_Stream string string
  | Conn_StartTLS
  | Conn_UseTLS
  | Conn_Auth string string string
  | Conn_Presence string string
  | Conn_MUCPresence string string
  | Conn_MUCSend string string string
  | Conn_Send string string string
  | Conn_Discover string string
  | Conn_Roster string string
  | Conn_KeepAlive

text \<open>
  The observable events: a call on the connection, \<open>xmpp.Dial(host)\<close>, \<open>time.Sleep\<close>
  (in seconds), the two goroutines \<open>connect\<close> starts, and the sends on the three result
  channels. A slice of pointers is a list of options, \<open>None\<close> the nil pointer.
\<close>

datatype event =
    Call conn_call
  | Dial string
  | Sleep nat
  | Go_listen
  | Go_onConnect_send bool
  | Send_receivedRooms "Room option list"
  | Send_receivedUsers "User option list"
  | Send_receivedMessage Message

text \<open>An unbuffered channel made by \<open>make(chan T)\<close>; a channel field is \<open>None\<close> when nil.\<close>

record chan =
  capacity :: nat

definition make_chan :: "chan option" where
  "make_chan = Some \<lparr>capacity = 0\<rparr>"

record Client =
  Username :: string
  Password :: string
  Resource :: string
  Id :: string
  mentionNames :: "string \<rightharpoonup> string"
  connection :: "Conn option"
  receivedUsers :: "chan option"
  receivedRooms :: "chan option"
  receivedMessage :: "chan option"
  onConnect :: "chan option"

text \<open>
  The world outside the client: what each coming \<open>xmpp.Dial\<close> returns, a handle and an
  error as in Go (when the list is used up, \<open>Dial\<close> never returns), and the trace so far.
\<close>

record world =
  dials :: "(Conn option \<times> error option) list"
  trace :: "event list"

text \<open>
  How a call ends when it ends: it returns, or the goroutine panics, with the value given
  to \<open>panic\<close> or on a nil connection handle. A call that never returns is \<open>None\<close> in the
  functions below.
\<close>

datatype panic = Panic_value "error option" | Nil_dereference

datatype 'a outcome = Return 'a | Panic panic

subsection \<open>Go library functions\<close>

text \<open>Indexing a Go map of strings: the zero value for a missing key.\<close>

definition map_index :: "(string \<rightharpoonup> string) \<Rightarrow> string \<Rightarrow> string" where
  "map_index m k = (case m k of None \<Rightarrow> [] | Some v \<Rightarrow> v)"


subsection \<open>The session facade\<close>

text \<open>
  \<open>Status\<close>, \<open>Join\<close>, \<open>Say\<close>, \<open>requestRooms\<close> and \<open>requestUsers\<close> each make one call on
  the connection. The receiving ends of the channels (\<open>Rooms\<close>, \<open>Users\<close>, \<open>Messages\<close>,
  \<open>OnConnect\<close>) and the ticker of \<open>KeepAlive\<close> run beside \<open>listen\<close> and have no
  definition here.
\<close>

definition call :: "conn_call \<Rightarrow> world \<Rightarrow> world" where
  "call k w = w\<lparr>trace := trace w @ [Call k]\<rparr>"

definition Status :: "Client \<Rightarrow> string \<Rightarrow> world \<Rightarrow> world" where
  "Status c s w = call (Conn_Presence (Client.Id c) s) w"

definition Join :: "Client \<Rightarrow> string \<Rightarrow> string \<Rightarrow> world \<Rightarrow> world" where
  "Join c roomId resource w = call (Conn_MUCPresence (roomId @ ''/'' @ resource) (Client.Id c)) w"


definition requestRooms :: "Client \<Rightarrow> world \<Rightarrow> world" where
  "requestRooms c w = call (Conn_Discover (Client.Id c) conf) w"

definition requestUsers :: "Client \<Rightarrow> world \<Rightarrow> world" where
  "requestUsers c w = call (Conn_Roster (Client.Id c) host) w"

subsection \<open>authenticate\<close>

text \<open>The name the two switches compare: \<open>element.Name.Local + element.Name.Space\<close>.\<close>

definition tag :: "StartElement \<Rightarrow> string" where
  "tag e = Local (StartElement.Name e) @ Space (StartElement.Name e)"

text \<open>The loop over \<open>features.Mechanisms\<close>: one \<open>Auth\<close> call for each entry \<open>PLAIN\<close>.\<close>

fun auth_mechanisms :: "Client \<Rightarrow> string list \<Rightarrow> event list" where
  "auth_mechanisms c [] = []"
| "auth_mechanisms c (m # ms) =
     (if m = ''PLAIN''
      then Call (Conn_Auth (Username c) (Password c) (Resource c)) # auth_mechanisms c ms
      else auth_mechanisms c ms)"

text \<open>The loop over \<open>element.Attr\<close> of the \<open>iq\<close> case, which returns at the first match.\<close>

fun type_result :: "xml_Attr list \<Rightarrow> bool" where
  "type_result [] = False"
| "type_result (attr # attrs) =
     (if Local (xml_Attr.Name attr) = ''type'' \<and> Value attr = ''result'' then True
      else type_result attrs)"

text \<open>
  The \<open>for\<close> loop of \<open>authenticate\<close>, over what \<open>Next()\<close> will give, with the trace so far.
  It returns the error of \<open>authenticate\<close> (\<open>None\<close> is nil), what is left to read and the
  trace; on a script that is used up it waits in \<open>Next()\<close> for ever. The loop has no
  exit but its two \<open>return\<close>s and the error of \<open>Next()\<close>, so the statement after it is
  never reached.
\<close>

fun authenticate_loop ::
  "xmpp_lib \<Rightarrow> Client \<Rightarrow> (error + stanza) list \<Rightarrow> event list
     \<Rightarrow> (error option \<times> (error + stanza) list \<times> event list) option" where
  "authenticate_loop lib c [] tr = None"
| "authenticate_loop lib c (Inl err # rest) tr = Some (Some err, rest, tr)"
| "authenticate_loop lib c (Inr st # rest) tr =
     (if tag (element st) = ''stream'' @ NsStream lib then
        (if StartTLS (Features st) \<noteq> None
         then authenticate_loop lib c rest (tr @ [Call Conn_StartTLS])
         else authenticate_loop lib c rest (tr @ auth_mechanisms c (Mechanisms (Features st))))
      else if tag (element st) = ''proceed'' @ NsTLS lib then
        authenticate_loop lib c rest
          (tr @ [Call Conn_UseTLS, Call (Conn_Stream (Client.Id c) host)])
      else if tag (element st) = ''iq'' @ NsJabberClient lib then
        (if type_result (Attr (element st)) then Some (None, rest, tr)
         else Some (Some (errors_New ''could not authenticate''), rest, tr))
      else authenticate_loop lib c rest tr)"

definition authenticate ::
  "xmpp_lib \<Rightarrow> Client \<times> world \<Rightarrow> (error option outcome \<times> Client \<times> world) option" where
  "authenticate lib s =
     (case s of (c, w) \<Rightarrow>
        (case connection c of
           None \<Rightarrow> Some (Panic Nil_dereference, c, w)
         | Some cn \<Rightarrow>
             (case authenticate_loop lib c (incoming cn)
                     (trace w @ [Call (Conn_Stream (Client.Id c) host)]) of
                None \<Rightarrow> None
              | Some (err, rest, tr) \<Rightarrow>
                  Some (Return err, c\<lparr>connection := Some (cn\<lparr>incoming := rest\<rparr>)\<rparr>,
                        w\<lparr>trace := tr\<rparr>))))"

text \<open>
  The reads that end the loop of \<open>authenticate\<close>: an error of \<open>Next()\<close>, or an element
  of the \<open>iq\<close> case.
\<close>

definition ends_loop :: "xmpp_lib \<Rightarrow> error + stanza \<Rightarrow> bool" where
  "ends_loop lib r =
     (case r of Inl err \<Rightarrow> True | Inr st \<Rightarrow> tag (element st) = ''iq'' @ NsJabberClient lib)"

subsection \<open>connect and NewClient\<close>

text \<open>
  \<open>connect\<close> stores the handle \<open>Dial\<close> returned before it looks at the error. After a
  successful \<open>authenticate\<close> it starts the two goroutines; the trace records that they
  are started, and what they do then, beside the caller, is outside the model.
\<close>

definition connect ::
  "xmpp_lib \<Rightarrow> Client \<times> world \<Rightarrow> (error option outcome \<times> Client \<times> world) option" where
  "connect lib s =
     (case s of (c, w) \<Rightarrow>
        (case dials w of
           [] \<Rightarrow> None
         | (connection', err) # ds \<Rightarrow>
             (let w1 = w\<lparr>dials := ds, trace := trace w @ [Dial host]\<rparr>;
                  c1 = c\<lparr>connection := connection'\<rparr>
              in if err \<noteq> None then Some (Return err, c1, w1)
                 else (case authenticate lib (c1, w1) of
                         None \<Rightarrow> None
                       | Some (Panic p, c2, w2) \<Rightarrow> Some (Panic p, c2, w2)
                       | Some (Return err', c2, w2) \<Rightarrow>
                           (if err' \<noteq> None then Some (Return err', c2, w2)
                            else Some (Return None, c2,
                                   w2\<lparr>trace := trace w2 @ [Go_listen, Go_onConnect_send True]\<rparr>))))))"

text \<open>The client literal of \<open>NewClient\<close>; the connection field is nil in it.\<close>

definition new_Client :: "string \<Rightarrow> string \<Rightarrow> string \<Rightarrow> Client" where
  "new_Client user pass resource =
     \<lparr>Username = user, Password = pass, Resource = resource, Id = user @ ''@'' @ host,
      mentionNames = Map.empty, connection = None,
      receivedUsers = make_chan, receivedRooms = make_chan,
      receivedMessage = make_chan, onConnect = make_chan\<rparr>"

text \<open>\<open>NewClient\<close> returns the pointer to the client (an option) and the error.\<close>

definition NewClient ::
  "xmpp_lib \<Rightarrow> string \<Rightarrow> string \<Rightarrow> string \<Rightarrow> world
     \<Rightarrow> ((Client option \<times> error option) outcome \<times> world) option" where
  "NewClient lib user pass resource w =
     (let c = new_Client user pass resource
      in case connect lib (c, w) of
           None \<Rightarrow> None
         | Some (Panic p, c', w') \<Rightarrow> Some (Panic p, w')
         | Some (Return err, c', w') \<Rightarrow> Some (Return (Some c', err), w'))"

subsection \<open>listen\<close>

text \<open>
  The two loops that build the slices for the result channels: a slice of nil pointers
  of the length of \<open>query.Items\<close>, then one assignment for each index.
\<close>

definition make_Rooms :: "item list \<Rightarrow> Room option list" where
  "make_Rooms its =
     fold (\<lambda>(i, item) items. items[i := Some \<lparr>Room.Id = Jid item, Room.Name = item.Name item\<rparr>])
       (enumerate 0 its) (replicate (length its) None)"

definition make_Users :: "item list \<Rightarrow> User option list" where
  "make_Users its =
     fold (\<lambda>(i, item) items. items[i := Some \<lparr>User.Id = Jid item, User.Name = item.Name item,
                                              User.MentionName = item.MentionName item\<rparr>])
       (enumerate 0 its) (replicate (length its) None)"

text \<open>
  The second half of the loop body of \<open>listen\<close>, the switch on a stanza that was read:
  the channel sends it makes.
\<close>

definition listen_dispatch :: "xmpp_lib \<Rightarrow> stanza \<Rightarrow> event list" where
  "listen_dispatch lib st =
     (if tag (element st) = ''iq'' @ NsJabberClient lib then
        (if Space (XMLName (Query st)) = NsDisco lib
           then [Send_receivedRooms (make_Rooms (Items (Query st)))]
         else if Space (XMLName (Query st)) = NsIqRoster lib
           then [Send_receivedUsers (make_Users (Items (Query st)))]
         else [])
      else if tag (element st) = ''presence'' @ NsJabberClient lib then []
      else if tag (element st) = ''message'' @ NsJabberClient lib then
        (let attr = ToMap lib (Attr (element st))
         in if map_index attr ''type'' \<noteq> ''groupchat'' \<and> map_index attr ''type'' \<noteq> ''chat''
            then []
            else if length (Body st) = 0 then []
            else [Send_receivedMessage
                    \<lparr>ID = map_index attr ''mid'', From = map_index attr ''from'',
                     To = map_index attr ''to'', Body = Body st,
                     Type = map_index attr ''type''\<rparr>])
      else [])"

text \<open>
  The first half of the loop body, taken when \<open>Next()\<close> returned an error: the two
  retry loops. A loop ends by the \<open>goto\<close> or by running out; \<open>err\<close> is the variable the
  loops assign and \<open>panic\<close> receives.
\<close>

datatype loop_exit = Goto_Reconnected | Fell_through "error option"

function listen_inner ::
  "xmpp_lib \<Rightarrow> nat \<Rightarrow> error option \<Rightarrow> Client \<times> world
     \<Rightarrow> (loop_exit outcome \<times> Client \<times> world) option" where
  "listen_inner lib i err s =
     (if i < 11 then
        (case s of (c, w) \<Rightarrow>
           (case connect lib (c, w\<lparr>trace := trace w @ [Sleep i]\<rparr>) of
              None \<Rightarrow> None
            | Some (Panic p, s') \<Rightarrow> Some (Panic p, s')
            | Some (Return err', s') \<Rightarrow>
                (if err' \<noteq> None then Some (Return Goto_Reconnected, s')
                 else listen_inner lib (i + 1) err' s')))
      else Some (Return (Fell_through err), s))"
  by pat_completeness auto
termination
  by (relation "measure (\<lambda>(lib, i, err, s). 11 - i)") auto

function listen_outer ::
  "xmpp_lib \<Rightarrow> nat \<Rightarrow> error option \<Rightarrow> Client \<times> world
     \<Rightarrow> (loop_exit outcome \<times> Client \<times> world) option" where
  "listen_outer lib m err s =
     (if m < 5 then
        (case listen_inner lib 1 err s of
           None \<Rightarrow> None
         | Some (Panic p, s') \<Rightarrow> Some (Panic p, s')
         | Some (Return Goto_Reconnected, s') \<Rightarrow> Some (Return Goto_Reconnected, s')
         | Some (Return (Fell_through err'), (c', w')) \<Rightarrow>
             listen_outer lib (m + 1) err' (c', w'\<lparr>trace := trace w' @ [Sleep (m * 60)]\<rparr>))
      else Some (Return (Fell_through err), s))"
  by pat_completeness auto
termination
  by (relation "measure (\<lambda>(lib, m, err, s). 5 - m)") auto

definition listen_reconnect ::
  "xmpp_lib \<Rightarrow> error option \<Rightarrow> Client \<times> world \<Rightarrow> (unit outcome \<times> Client \<times> world) option" where
  "listen_reconnect lib err s =
     (case listen_outer lib 0 err s of
        None \<Rightarrow> None
      | Some (Panic p, s') \<Rightarrow> Some (Panic p, s')
      | Some (Return (Fell_through err'), s') \<Rightarrow> Some (Panic (Panic_value err'), s')
      | Some (Return Goto_Reconnected, s') \<Rightarrow> Some (Return (), s'))"

text \<open>
  One turn of the loop of \<open>listen\<close>: read, then reconnect or dispatch. \<open>Return ()\<close> is
  the \<open>continue\<close> or the end of the body.
\<close>

definition listen_iteration ::
  "xmpp_lib \<Rightarrow> Client \<times> world \<Rightarrow> (unit outcome \<times> Client \<times> world) option" where
  "listen_iteration lib s =
     (case s of (c, w) \<Rightarrow>
        (case connection c of
           None \<Rightarrow> Some (Panic Nil_dereference, c, w)
         | Some cn \<Rightarrow>
             (case incoming cn of
                [] \<Rightarrow> None
              | r # rest \<Rightarrow>
                  (let c1 = c\<lparr>connection := Some (cn\<lparr>incoming := rest\<rparr>)\<rparr>
                   in case r of
                        Inl err \<Rightarrow> listen_reconnect lib (Some err) (c1, w)
                      | Inr st \<Rightarrow>
                          Some (Return (), c1,
                                w\<lparr>trace := trace w @ listen_dispatch lib st\<rparr>)))))"

text \<open>
  \<open>listen\<close> repeats the body and never returns: it ends in a panic or not at all.
\<close>

partial_function (option) listen :: "xmpp_lib \<Rightarrow> Client \<times> world \<Rightarrow> (panic \<times> Client \<times> world) option" where
  "listen lib s =
     (case listen_iteration lib s of
        None \<Rightarrow> None
      | Some (Panic p, s') \<Rightarrow> Some (p, s')
      | Some (Return u, s') \<Rightarrow> listen lib s')"

subsection \<open>The specification's reading of a destination\<close>



subsection \<open>Values for the concrete runs\<close>

text \<open>
  An instance of the parameters: the namespace names XMPP uses, and a \<open>ToMap\<close> that keys
  each attribute by its local name. Then some stanzas, a client reading a given script,
  and two results of \<open>Dial\<close>.
\<close>

definition example_ToMap :: "xml_Attr list \<Rightarrow> (string \<rightharpoonup> string)" where
  "example_ToMap attrs = fold (\<lambda>a m. m(Local (xml_Attr.Name a) \<mapsto> Value a)) attrs Map.empty"

definition example_lib :: xmpp_lib where
  "example_lib =
     \<lparr>NsStream = ''http://etherx.jabber.org/streams'',
      NsTLS = ''urn:ietf:params:xml:ns:xmpp-tls'',
      NsJabberClient = ''jabber:client'',
      NsDisco = ''http://jabber.org/protocol/disco#items'',
      NsIqRoster = ''jabber:iq:roster'',
      ToMap = example_ToMap\<rparr>"

definition example_stanza :: "string \<Rightarrow> string \<Rightarrow> (string \<times> string) list \<Rightarrow> stanza" where
  "example_stanza local space attrs =
     \<lparr>element =
        \<lparr>StartElement.Name = \<lparr>Space = space, Local = local\<rparr>,
         Attr = map (\<lambda>(k, v). \<lparr>xml_Attr.Name = \<lparr>Space = [], Local = k\<rparr>, Value = v\<rparr>) attrs\<rparr>,
      Features = \<lparr>StartTLS = None, Mechanisms = []\<rparr>,
      Query = \<lparr>XMLName = \<lparr>Space = [], Local = []\<rparr>, Items = []\<rparr>,
      Body = []\<rparr>"

definition tls_features :: stanza where
  "tls_features =
     (example_stanza ''stream'' ''http://etherx.jabber.org/streams'' [])
       \<lparr>Features := \<lparr>StartTLS = Some (), Mechanisms = [''PLAIN'']\<rparr>\<rparr>"

definition plain_features :: stanza where
  "plain_features =
     (example_stanza ''stream'' ''http://etherx.jabber.org/streams'' [])
       \<lparr>Features := \<lparr>StartTLS = None, Mechanisms = [''X-HIPCHAT-OAUTH2'', ''PLAIN'']\<rparr>\<rparr>"

definition proceed :: stanza where
  "proceed = example_stanza ''proceed'' ''urn:ietf:params:xml:ns:xmpp-tls'' []"

definition tls_failure :: stanza where
  "tls_failure = example_stanza ''failure'' ''urn:ietf:params:xml:ns:xmpp-tls'' []"

definition iq_result :: stanza where
  "iq_result = example_stanza ''iq'' ''jabber:client'' [(''id'', ''1''), (''type'', ''result'')]"

definition iq_error :: stanza where
  "iq_error = example_stanza ''iq'' ''jabber:client'' [(''type'', ''error'')]"

definition chat_message :: stanza where
  "chat_message =
     (example_stanza ''message'' ''jabber:client''
        [(''type'', ''chat''), (''from'', ''1_7@chat.hipchat.com''),
         (''to'', ''bob@chat.hipchat.com''), (''mid'', ''m1'')])
       \<lparr>Body := ''hello''\<rparr>"

definition two_items :: "item list" where
  "two_items =
     [\<lparr>Jid = ''1_dev@conf.hipchat.com'', Name = ''Dev'', MentionName = []\<rparr>,
      \<lparr>Jid = ''1_ops@conf.hipchat.com'', Name = ''Ops'', MentionName = ''ops''\<rparr>]"

definition rooms_reply :: stanza where
  "rooms_reply =
     (example_stanza ''iq'' ''jabber:client'' [(''type'', ''result'')])
       \<lparr>Query := \<lparr>XMLName = \<lparr>Space = ''http://jabber.org/protocol/disco#items'',
                              Local = ''query''\<rparr>,
                   Items = two_items\<rparr>\<rparr>"

definition roster_reply :: stanza where
  "roster_reply =
     (example_stanza ''iq'' ''jabber:client'' [(''type'', ''result'')])
       \<lparr>Query := \<lparr>XMLName = \<lparr>Space = ''jabber:iq:roster'', Local = ''query''\<rparr>,
                   Items = two_items\<rparr>\<rparr>"

definition reading :: "(error + stanza) list \<Rightarrow> Conn" where
  "reading rs = \<lparr>incoming = rs\<rparr>"

definition bob :: "(error + stanza) list \<Rightarrow> Client" where
  "bob rs = (new_Client ''bob'' ''pw'' ''desk'')\<lparr>connection := Some (reading rs)\<rparr>"

definition accepting :: "Conn option \<times> error option" where
  "accepting = (Some (reading [Inr iq_result]), None)"

definition refusing :: "Conn option \<times> error option" where
  "refusing = (None, Some (XmppError ''connection refused''))"

definition dialling :: "(Conn option \<times> error option) list \<Rightarrow> world" where
  "dialling ds = \<lparr>dials = ds, trace = []\<rparr>"

section \<open>Properties\<close>

declare listen_inner.simps [simp del] listen_outer.simps [simp del]

subsection \<open>Say\<close>







subsection \<open>The dispatch of one stanza\<close>

lemma listen_iteration_stanza:
  "connection c = Some cn \<Longrightarrow> incoming cn = Inr st # rest \<Longrightarrow>
   listen_iteration lib (c, w) =
     Some (Return (), c\<lparr>connection := Some (cn\<lparr>incoming := rest\<rparr>)\<rparr>,
           w\<lparr>trace := trace w @ listen_dispatch lib st\<rparr>)"
  by (simp add: listen_iteration_def)

lemma dispatch_message:
  "tag (element st) = ''message'' @ NsJabberClient lib \<Longrightarrow>
   listen_dispatch lib st =
     (let attr = ToMap lib (Attr (element st))
      in if (map_index attr ''type'' = ''chat'' \<or> map_index attr ''type'' = ''groupchat'')
            \<and> stanza.Body st \<noteq> []
         then [Send_receivedMessage
                 \<lparr>ID = map_index attr ''mid'', From = map_index attr ''from'',
                  To = map_index attr ''to'', Body = stanza.Body st,
                  Type = map_index attr ''type''\<rparr>]
         else [])"
  by (auto simp: listen_dispatch_def Let_def)

lemma fold_update_enumerate:
  "n + length xs \<le> length acc \<Longrightarrow>
   fold (\<lambda>(i, x) items. items[i := f x]) (enumerate n xs) acc
     = take n acc @ map f xs @ drop (n + length xs) acc"
proof (induction xs arbitrary: n acc)
  case Nil
  then show ?case by simp
next
  case (Cons x xs)
  have len: "Suc n + length xs \<le> length (acc[n := f x])"
    using Cons.prems by simp
  have n: "n < length acc"
    using Cons.prems by simp
  have "take (Suc n) (acc[n := f x]) = take n acc @ [f x]"
    using n by (simp add: take_Suc_conv_app_nth)
  then show ?case
    using Cons.IH [OF len] by simp
qed

lemma make_Rooms_map:
  "make_Rooms its = map (\<lambda>it. Some \<lparr>Room.Id = Jid it, Room.Name = item.Name it\<rparr>) its"
  unfolding make_Rooms_def by (simp add: fold_update_enumerate)

lemma make_Users_map:
  "make_Users its =
     map (\<lambda>it. Some \<lparr>User.Id = Jid it, User.Name = item.Name it,
                       User.MentionName = item.MentionName it\<rparr>) its"
  unfolding make_Users_def by (simp add: fold_update_enumerate)

text \<open>
  C5: when the stanza read is a \<open>message\<close> element, the loop body sends on the messages
  channel exactly when the \<open>type\<close> attribute is \<open>chat\<close> or \<open>groupchat\<close> and the body is
  not empty; it then sends one Message, whose Type, From, To and ID are the attributes
  \<open>type\<close>, \<open>from\<close>, \<open>to\<close> and \<open>mid\<close> and whose Body is the stanza's body; otherwise it
  sends nothing.
\<close>

theorem listen_message_filter:
  assumes "connection c = Some cn" and "incoming cn = Inr st # rest"
    and "tag (element st) = ''message'' @ NsJabberClient lib"
  shows "listen_iteration lib (c, w) =
      Some (Return (), c\<lparr>connection := Some (cn\<lparr>incoming := rest\<rparr>)\<rparr>,
        w\<lparr>trace := trace w @
          (if (map_index (ToMap lib (Attr (element st))) ''type'' = ''chat''
               \<or> map_index (ToMap lib (Attr (element st))) ''type'' = ''groupchat'')
              \<and> stanza.Body st \<noteq> []
           then [Send_receivedMessage
                   \<lparr>ID = map_index (ToMap lib (Attr (element st))) ''mid'',
                    From = map_index (ToMap lib (Attr (element st))) ''from'',
                    To = map_index (ToMap lib (Attr (element st))) ''to'',
                    Body = stanza.Body st,
                    Type = map_index (ToMap lib (Attr (element st))) ''type''\<rparr>]
           else [])\<rparr>)"
  unfolding listen_iteration_stanza [OF assms(1,2)] dispatch_message [OF assms(3)]
  by (simp add: Let_def)

theorem listen_message_filter_witness:
  "connection (bob [Inr chat_message]) = Some (reading [Inr chat_message])
   \<and> incoming (reading [Inr chat_message]) = Inr chat_message # []
   \<and> tag (element chat_message) = ''message'' @ NsJabberClient example_lib
   \<and> listen_iteration example_lib (bob [Inr chat_message], dialling []) =
       Some (Return (),
         (bob [Inr chat_message])\<lparr>connection := Some ((reading [Inr chat_message])\<lparr>incoming := []\<rparr>)\<rparr>,
         (dialling [])\<lparr>trace := trace (dialling []) @
            [Send_receivedMessage
               \<lparr>ID = ''m1'', From = ''1_7@chat.hipchat.com'', To = ''bob@chat.hipchat.com'',
                Body = ''hello'', Type = ''chat''\<rparr>]\<rparr>)"
proof -
  have h1: "connection (bob [Inr chat_message]) = Some (reading [Inr chat_message])"
    by code_simp
  have h2: "incoming (reading [Inr chat_message]) = Inr chat_message # []"
    by code_simp
  have h3: "tag (element chat_message) = ''message'' @ NsJabberClient example_lib"
    by code_simp
  have e: "map_index (ToMap example_lib (Attr (element chat_message))) ''type'' = ''chat''"
    "map_index (ToMap example_lib (Attr (element chat_message))) ''mid'' = ''m1''"
    "map_index (ToMap example_lib (Attr (element chat_message))) ''from'' = ''1_7@chat.hipchat.com''"
    "map_index (ToMap example_lib (Attr (element chat_message))) ''to'' = ''bob@chat.hipchat.com''"
    "stanza.Body chat_message = ''hello''"
    by code_simp+
  show ?thesis
    using listen_message_filter [OF h1 h2 h3, of "dialling []"] h1 h2 h3
    unfolding e by simp
qed

text \<open>
  C6: when the stanza read is an \<open>iq\<close> element whose query is in the room-discovery
  namespace, the loop body makes one send on the rooms channel, of a slice as long as the
  query's items whose i-th entry has the i-th item's jid as Id and its name as Name.
\<close>

theorem listen_rooms:
  assumes "connection c = Some cn" and "incoming cn = Inr st # rest"
    and "tag (element st) = ''iq'' @ NsJabberClient lib"
    and "Space (XMLName (Query st)) = NsDisco lib"
  shows "listen_iteration lib (c, w) =
        Some (Return (), c\<lparr>connection := Some (cn\<lparr>incoming := rest\<rparr>)\<rparr>,
              w\<lparr>trace := trace w @ [Send_receivedRooms (make_Rooms (Items (Query st)))]\<rparr>)
    \<and> length (make_Rooms (Items (Query st))) = length (Items (Query st))
    \<and> (\<forall>i < length (Items (Query st)).
          make_Rooms (Items (Query st)) ! i =
            Some \<lparr>Room.Id = Jid (Items (Query st) ! i),
                  Room.Name = item.Name (Items (Query st) ! i)\<rparr>)"
  unfolding listen_iteration_stanza [OF assms(1,2)]
  using assms(3,4) by (simp add: listen_dispatch_def make_Rooms_map)

theorem listen_rooms_witness:
  "connection (bob [Inr rooms_reply]) = Some (reading [Inr rooms_reply])
   \<and> incoming (reading [Inr rooms_reply]) = Inr rooms_reply # []
   \<and> tag (element rooms_reply) = ''iq'' @ NsJabberClient example_lib
   \<and> Space (XMLName (Query rooms_reply)) = NsDisco example_lib
   \<and> listen_iteration example_lib (bob [Inr rooms_reply], dialling []) =
       Some (Return (),
         (bob [Inr rooms_reply])\<lparr>connection := Some ((reading [Inr rooms_reply])\<lparr>incoming := []\<rparr>)\<rparr>,
         (dialling [])\<lparr>trace := trace (dialling []) @
            [Send_receivedRooms (make_Rooms (Items (Query rooms_reply)))]\<rparr>)
   \<and> make_Rooms (Items (Query rooms_reply)) =
       [Some \<lparr>Room.Id = ''1_dev@conf.hipchat.com'', Room.Name = ''Dev''\<rparr>,
        Some \<lparr>Room.Id = ''1_ops@conf.hipchat.com'', Room.Name = ''Ops''\<rparr>]"
proof -
  have h1: "connection (bob [Inr rooms_reply]) = Some (reading [Inr rooms_reply])"
    by code_simp
  have h2: "incoming (reading [Inr rooms_reply]) = Inr rooms_reply # []"
    by code_simp
  have h3: "tag (element rooms_reply) = ''iq'' @ NsJabberClient example_lib"
    by code_simp
  have h4: "Space (XMLName (Query rooms_reply)) = NsDisco example_lib"
    by code_simp
  have e: "make_Rooms (Items (Query rooms_reply)) =
       [Some \<lparr>Room.Id = ''1_dev@conf.hipchat.com'', Room.Name = ''Dev''\<rparr>,
        Some \<lparr>Room.Id = ''1_ops@conf.hipchat.com'', Room.Name = ''Ops''\<rparr>]"
    by code_simp
  show ?thesis
    using listen_rooms [OF h1 h2 h3 h4, of "dialling []"] h1 h2 h3 h4 e by blast
qed

text \<open>
  C7: when the stanza read is an \<open>iq\<close> element whose query is in the roster namespace
  (a namespace other than the room-discovery one), the loop body makes one send on the
  users channel, of a slice as long as the query's items whose i-th entry has the i-th
  item's jid, name and mention name.
\<close>

theorem listen_users:
  assumes "connection c = Some cn" and "incoming cn = Inr st # rest"
    and "tag (element st) = ''iq'' @ NsJabberClient lib"
    and "Space (XMLName (Query st)) = NsIqRoster lib"
    and "NsDisco lib \<noteq> NsIqRoster lib"
  shows "listen_iteration lib (c, w) =
        Some (Return (), c\<lparr>connection := Some (cn\<lparr>incoming := rest\<rparr>)\<rparr>,
              w\<lparr>trace := trace w @ [Send_receivedUsers (make_Users (Items (Query st)))]\<rparr>)
    \<and> length (make_Users (Items (Query st))) = length (Items (Query st))
    \<and> (\<forall>i < length (Items (Query st)).
          make_Users (Items (Query st)) ! i =
            Some \<lparr>User.Id = Jid (Items (Query st) ! i),
                  User.Name = item.Name (Items (Query st) ! i),
                  User.MentionName = item.MentionName (Items (Query st) ! i)\<rparr>)"
  unfolding listen_iteration_stanza [OF assms(1,2)]
  using assms(3,4,5) by (simp add: listen_dispatch_def make_Users_map)

theorem listen_users_witness:
  "connection (bob [Inr roster_reply]) = Some (reading [Inr roster_reply])
   \<and> incoming (reading [Inr roster_reply]) = Inr roster_reply # []
   \<and> tag (element roster_reply) = ''iq'' @ NsJabberClient example_lib
   \<and> Space (XMLName (Query roster_reply)) = NsIqRoster example_lib
   \<and> NsDisco example_lib \<noteq> NsIqRoster example_lib
   \<and> listen_iteration example_lib (bob [Inr roster_reply], dialling []) =
       Some (Return (),
         (bob [Inr roster_reply])\<lparr>connection := Some ((reading [Inr roster_reply])\<lparr>incoming := []\<rparr>)\<rparr>,
         (dialling [])\<lparr>trace := trace (dialling []) @
            [Send_receivedUsers (make_Users (Items (Query roster_reply)))]\<rparr>)
   \<and> make_Users (Items (Query roster_reply)) =
       [Some \<lparr>User.Id = ''1_dev@conf.hipchat.com'', User.Name = ''Dev'', User.MentionName = []\<rparr>,
        Some \<lparr>User.Id = ''1_ops@conf.hipchat.com'', User.Name = ''Ops'',
              User.MentionName = ''ops''\<rparr>]"
proof -
  have h1: "connection (bob [Inr roster_reply]) = Some (reading [Inr roster_reply])"
    by code_simp
  have h2: "incoming (reading [Inr roster_reply]) = Inr roster_reply # []"
    by code_simp
  have h3: "tag (element roster_reply) = ''iq'' @ NsJabberClient example_lib"
    by code_simp
  have h4: "Space (XMLName (Query roster_reply)) = NsIqRoster example_lib"
    by code_simp
  have h5: "NsDisco example_lib \<noteq> NsIqRoster example_lib"
    by code_simp
  have e: "make_Users (Items (Query roster_reply)) =
       [Some \<lparr>User.Id = ''1_dev@conf.hipchat.com'', User.Name = ''Dev'', User.MentionName = []\<rparr>,
        Some \<lparr>User.Id = ''1_ops@conf.hipchat.com'', User.Name = ''Ops'',
              User.MentionName = ''ops''\<rparr>]"
    by code_simp
  show ?thesis
    using listen_users [OF h1 h2 h3 h4 h5, of "dialling []"] h1 h2 h3 h4 h5 e by blast
qed

subsection \<open>connect and NewClient\<close>

lemma authenticate_client:
  "authenticate lib (c, w) = Some (r, c', w') \<Longrightarrow> c' = c\<lparr>connection := connection c'\<rparr>"
  by (auto simp: authenticate_def split: option.splits)

lemma connect_client:
  assumes "connect lib (c, w) = Some (r, c', w')"
  shows "c' = c\<lparr>connection := connection c'\<rparr>"
proof (cases "dials w")
  case Nil
  then show ?thesis
    using assms by (simp add: connect_def)
next
  case (Cons d ds)
  obtain h err where d: "d = (h, err)"
    by (cases d)
  show ?thesis
  proof (cases err)
    case (Some e)
    then show ?thesis
      using assms Cons d by (auto simp: connect_def)
  next
    case None
    let ?w1 = "w\<lparr>dials := ds, trace := trace w @ [Dial host]\<rparr>"
    from assms Cons d None obtain r2 c2 w2
      where a: "authenticate lib (c\<lparr>connection := h\<rparr>, ?w1) = Some (r2, c2, w2)" and c2: "c' = c2"
      by (auto simp: connect_def Let_def split: option.splits outcome.splits if_splits)
    from authenticate_client [OF a] c2 show ?thesis
      by (metis Client.surjective Client.update_convs(6))
  qed
qed



text \<open>
  C9: \<open>NewClient\<close> runs \<open>connect\<close> on a client that already has its Id,
  \<open>user@chat.hipchat.com\<close>, and its four channels; whenever it returns, the pointer it
  returns is not nil and that client still has them, also when the error is not nil, as
  after a failed \<open>Dial\<close>.
\<close>

theorem NewClient_returns_client:
  "(\<exists>c0. Client.Id c0 = user @ ''@'' @ host
        \<and> receivedUsers c0 \<noteq> None \<and> receivedRooms c0 \<noteq> None
        \<and> receivedMessage c0 \<noteq> None \<and> onConnect c0 \<noteq> None
        \<and> NewClient lib user pass resource w =
            (case connect lib (c0, w) of
               None \<Rightarrow> None
             | Some (Panic p, c', w') \<Rightarrow> Some (Panic p, w')
             | Some (Return err, c', w') \<Rightarrow> Some (Return (Some c', err), w')))
   \<and> (\<forall>p err w'. NewClient lib user pass resource w = Some (Return (p, err), w') \<longrightarrow>
        (\<exists>c. p = Some c \<and> Client.Id c = user @ ''@'' @ host
           \<and> receivedUsers c \<noteq> None \<and> receivedRooms c \<noteq> None
           \<and> receivedMessage c \<noteq> None \<and> onConnect c \<noteq> None))
   \<and> (\<forall>h e ds. dials w = (h, Some e) # ds \<longrightarrow>
        (\<exists>c. NewClient lib user pass resource w =
                Some (Return (Some c, Some e), w\<lparr>dials := ds, trace := trace w @ [Dial host]\<rparr>)
           \<and> Client.Id c = user @ ''@'' @ host
           \<and> receivedUsers c \<noteq> None \<and> receivedRooms c \<noteq> None
           \<and> receivedMessage c \<noteq> None \<and> onConnect c \<noteq> None))"
proof (intro conjI allI impI)
  show "\<exists>c0. Client.Id c0 = user @ ''@'' @ host
        \<and> receivedUsers c0 \<noteq> None \<and> receivedRooms c0 \<noteq> None
        \<and> receivedMessage c0 \<noteq> None \<and> onConnect c0 \<noteq> None
        \<and> NewClient lib user pass resource w =
            (case connect lib (c0, w) of
               None \<Rightarrow> None
             | Some (Panic p, c', w') \<Rightarrow> Some (Panic p, w')
             | Some (Return err, c', w') \<Rightarrow> Some (Return (Some c', err), w'))"
    by (rule exI [of _ "new_Client user pass resource"])
      (simp add: NewClient_def new_Client_def make_chan_def)
next
  fix p err w'
  assume r: "NewClient lib user pass resource w = Some (Return (p, err), w')"
  then obtain c' where c: "connect lib (new_Client user pass resource, w) = Some (Return err, c', w')"
    and p: "p = Some c'"
    by (auto simp: NewClient_def split: option.splits outcome.splits)
  have "c' = (new_Client user pass resource)\<lparr>connection := connection c'\<rparr>"
    by (rule connect_client [OF c])
  then have "Client.Id c' = user @ ''@'' @ host \<and> receivedUsers c' \<noteq> None
      \<and> receivedRooms c' \<noteq> None \<and> receivedMessage c' \<noteq> None \<and> onConnect c' \<noteq> None"
    by (metis (no_types) Client.select_convs(4,7,8,9,10) Client.surjective
        Client.update_convs(6) new_Client_def make_chan_def option.distinct(1))
  then show "\<exists>c. p = Some c \<and> Client.Id c = user @ ''@'' @ host
           \<and> receivedUsers c \<noteq> None \<and> receivedRooms c \<noteq> None
           \<and> receivedMessage c \<noteq> None \<and> onConnect c \<noteq> None"
    using p by simp
next
  fix h e ds
  assume d: "dials w = (h, Some e) # ds"
  show "\<exists>c. NewClient lib user pass resource w =
                Some (Return (Some c, Some e), w\<lparr>dials := ds, trace := trace w @ [Dial host]\<rparr>)
           \<and> Client.Id c = user @ ''@'' @ host
           \<and> receivedUsers c \<noteq> None \<and> receivedRooms c \<noteq> None
           \<and> receivedMessage c \<noteq> None \<and> onConnect c \<noteq> None"
    by (rule exI [of _ "(new_Client user pass resource)\<lparr>connection := h\<rparr>"])
      (simp add: NewClient_def connect_def d new_Client_def make_chan_def)
qed

theorem NewClient_returns_client_witness:
  "dials (dialling [refusing]) = (None, Some (XmppError ''connection refused'')) # []
   \<and> (\<exists>c. NewClient example_lib ''bob'' ''pw'' ''desk'' (dialling [refusing]) =
            Some (Return (Some c, Some (XmppError ''connection refused'')),
                  (dialling [refusing])\<lparr>dials := [],
                     trace := trace (dialling [refusing]) @ [Dial host]\<rparr>)
          \<and> Client.Id c = ''bob'' @ ''@'' @ host
          \<and> receivedUsers c \<noteq> None \<and> receivedRooms c \<noteq> None
          \<and> receivedMessage c \<noteq> None \<and> onConnect c \<noteq> None)"
proof -
  have h: "dials (dialling [refusing]) = (None, Some (XmppError ''connection refused'')) # []"
    by code_simp
  show ?thesis
    using NewClient_returns_client [of "''bob''" example_lib "''pw''" "''desk''"
        "dialling [refusing]"] h
    by blast
qed

subsection \<open>authenticate\<close>

lemma auth_mechanisms_replicate:
  "auth_mechanisms c ms =
     replicate (count_list ms ''PLAIN'') (Call (Conn_Auth (Username c) (Password c) (Resource c)))"
  by (induction ms) auto

lemma count_list_pos: "x \<in> set xs \<Longrightarrow> 0 < count_list xs x"
  by (metis count_list_0_iff gr0I)

text \<open>
  C3: in the loop of \<open>authenticate\<close>, a \<open>stream\<close> element whose features offer STARTTLS
  makes the client call \<open>StartTLS\<close> and nothing else, whatever mechanisms are listed; a
  \<open>stream\<close> element without STARTTLS that lists \<open>PLAIN\<close> makes it call \<open>Auth\<close> with the
  client's credentials (once for each time \<open>PLAIN\<close> is listed) and never \<open>StartTLS\<close>; and
  on the \<open>proceed\<close> element that answers the request the client switches to TLS and opens
  the stream again, so that the calls are \<open>StartTLS\<close>, \<open>UseTLS\<close>, \<open>Stream\<close> in this order.
  The loop then goes on with the next element.
\<close>

theorem authenticate_starttls_first:
  "(tag (element st) = ''stream'' @ NsStream lib \<and> StartTLS (Features st) \<noteq> None \<longrightarrow>
      authenticate_loop lib c (Inr st # rest) tr
        = authenticate_loop lib c rest (tr @ [Call Conn_StartTLS]))
   \<and> (tag (element st') = ''stream'' @ NsStream lib \<and> StartTLS (Features st') = None
        \<and> ''PLAIN'' \<in> set (Mechanisms (Features st')) \<longrightarrow>
      0 < count_list (Mechanisms (Features st')) ''PLAIN'' \<and>
      authenticate_loop lib c (Inr st' # rest) tr
        = authenticate_loop lib c rest
            (tr @ replicate (count_list (Mechanisms (Features st')) ''PLAIN'')
                    (Call (Conn_Auth (Username c) (Password c) (Resource c)))))
   \<and> (tag (element p) = ''proceed'' @ NsTLS lib
        \<and> tag (element p) \<noteq> ''stream'' @ NsStream lib \<longrightarrow>
      authenticate_loop lib c (Inr p # rest) tr
        = authenticate_loop lib c rest
            (tr @ [Call Conn_UseTLS, Call (Conn_Stream (Client.Id c) host)]))
   \<and> (tag (element st) = ''stream'' @ NsStream lib \<and> StartTLS (Features st) \<noteq> None
        \<and> tag (element p) = ''proceed'' @ NsTLS lib
        \<and> tag (element p) \<noteq> ''stream'' @ NsStream lib \<longrightarrow>
      authenticate_loop lib c (Inr st # Inr p # rest) tr
        = authenticate_loop lib c rest
            (tr @ [Call Conn_StartTLS, Call Conn_UseTLS, Call (Conn_Stream (Client.Id c) host)]))"
  by (simp add: auth_mechanisms_replicate count_list_pos)

theorem authenticate_starttls_first_witness:
  "(tag (element tls_features) = ''stream'' @ NsStream example_lib
      \<and> StartTLS (Features tls_features) \<noteq> None
      \<and> ''PLAIN'' \<in> set (Mechanisms (Features tls_features)))
   \<and> (tag (element plain_features) = ''stream'' @ NsStream example_lib
      \<and> StartTLS (Features plain_features) = None
      \<and> ''PLAIN'' \<in> set (Mechanisms (Features plain_features)))
   \<and> (tag (element proceed) = ''proceed'' @ NsTLS example_lib
      \<and> tag (element proceed) \<noteq> ''stream'' @ NsStream example_lib)
   \<and> authenticate_loop example_lib (bob []) [Inr tls_features, Inr iq_result] []
       = Some (None, [], [Call Conn_StartTLS])
   \<and> authenticate_loop example_lib (bob []) [Inr plain_features, Inr iq_result] []
       = Some (None, [], [Call (Conn_Auth ''bob'' ''pw'' ''desk'')])
   \<and> authenticate_loop example_lib (bob []) [Inr proceed, Inr iq_result] []
       = Some (None, [], [Call Conn_UseTLS, Call (Conn_Stream ''bob@chat.hipchat.com'' host)])
   \<and> authenticate_loop example_lib (bob []) [Inr tls_features, Inr proceed, Inr iq_result] []
       = Some (None, [], [Call Conn_StartTLS, Call Conn_UseTLS,
                          Call (Conn_Stream ''bob@chat.hipchat.com'' host)])"
proof -
  have h1: "tag (element tls_features) = ''stream'' @ NsStream example_lib"
    "StartTLS (Features tls_features) \<noteq> None"
    "''PLAIN'' \<in> set (Mechanisms (Features tls_features))"
    by code_simp+
  have h2: "tag (element plain_features) = ''stream'' @ NsStream example_lib"
    "StartTLS (Features plain_features) = None"
    "''PLAIN'' \<in> set (Mechanisms (Features plain_features))"
    by code_simp+
  have h3: "tag (element proceed) = ''proceed'' @ NsTLS example_lib"
    "tag (element proceed) \<noteq> ''stream'' @ NsStream example_lib"
    by code_simp+
  have e1: "authenticate_loop example_lib (bob []) [Inr iq_result] ([] @ [Call Conn_StartTLS])
      = Some (None, [], [Call Conn_StartTLS])"
    by code_simp
  have e2: "authenticate_loop example_lib (bob []) [Inr iq_result]
       ([] @ replicate (count_list (Mechanisms (Features plain_features)) ''PLAIN'')
               (Call (Conn_Auth (Username (bob [])) (Password (bob [])) (Resource (bob [])))))
      = Some (None, [], [Call (Conn_Auth ''bob'' ''pw'' ''desk'')])"
    by code_simp
  have e3: "authenticate_loop example_lib (bob []) [Inr iq_result]
       ([] @ [Call Conn_UseTLS, Call (Conn_Stream (Client.Id (bob [])) host)])
      = Some (None, [], [Call Conn_UseTLS, Call (Conn_Stream ''bob@chat.hipchat.com'' host)])"
    by code_simp
  have e4: "authenticate_loop example_lib (bob []) [Inr iq_result]
       ([] @ [Call Conn_StartTLS, Call Conn_UseTLS, Call (Conn_Stream (Client.Id (bob [])) host)])
      = Some (None, [], [Call Conn_StartTLS, Call Conn_UseTLS,
                         Call (Conn_Stream ''bob@chat.hipchat.com'' host)])"
    by code_simp
  note t = authenticate_starttls_first [of tls_features example_lib "bob []" "[Inr iq_result]" "[]"
      plain_features proceed]
  show ?thesis
    using t h1 h2 h3 e1 e2 e3 e4 by presburger
qed

lemma type_result_iff:
  "type_result attrs \<longleftrightarrow>
     (\<exists>attr \<in> set attrs. Local (xml_Attr.Name attr) = ''type'' \<and> Value attr = ''result'')"
  by (induction attrs) auto

lemma authenticate_loop_dropWhile:
  assumes "''iq'' @ NsJabberClient lib \<noteq> ''stream'' @ NsStream lib"
    and "''iq'' @ NsJabberClient lib \<noteq> ''proceed'' @ NsTLS lib"
  shows "map_option fst (authenticate_loop lib c rs tr) =
     (case dropWhile (\<lambda>r. \<not> ends_loop lib r) rs of
        [] \<Rightarrow> None
      | Inl err # rest \<Rightarrow> Some (Some err)
      | Inr st # rest \<Rightarrow>
          Some (if type_result (Attr (element st)) then None
                else Some (errors_New ''could not authenticate'')))"
proof (induction rs arbitrary: tr)
  case Nil
  then show ?case by simp
next
  case (Cons r rs)
  show ?case
  proof (cases r)
    case (Inl err)
    then show ?thesis by (simp add: ends_loop_def)
  next
    case (Inr st)
    show ?thesis
    proof (cases "tag (element st) = ''iq'' @ NsJabberClient lib")
      case True
      then show ?thesis using assms Inr by (simp add: ends_loop_def)
    next
      case False
      then show ?thesis using Inr Cons.IH by (simp add: ends_loop_def)
    qed
  qed
qed

lemma dropWhile_first:
  "(\<forall>r \<in> set pre. P r) \<Longrightarrow> \<not> P x \<Longrightarrow> dropWhile P (pre @ x # rest) = x # rest"
  by (induction pre) auto

lemma dropWhile_decompose:
  "dropWhile P rs = x # rest \<Longrightarrow> \<exists>pre. rs = pre @ x # rest \<and> (\<forall>r \<in> set pre. P r) \<and> \<not> P x"
  by (metis dropWhile_eq_Cons_conv set_takeWhileD takeWhile_dropWhile_id)

lemma authenticate_returns:
  "connection c = Some cn \<Longrightarrow>
   (\<exists>c' w'. authenticate lib (c, w) = Some (Return r, c', w')) \<longleftrightarrow>
   map_option fst (authenticate_loop lib c (incoming cn)
      (trace w @ [Call (Conn_Stream (Client.Id c) host)])) = Some r"
  by (auto simp: authenticate_def split: option.splits)

text \<open>
  C4: on a connection, with the \<open>iq\<close> case distinct from the two cases before it in the
  switch, \<open>authenticate\<close> returns nil exactly when the reads up to the first \<open>iq\<close> element
  all succeed and that element has an attribute \<open>type\<close> with value \<open>result\<close>; when that
  element has no such attribute it returns the error \<open>could not authenticate\<close>, which is
  no error of the connection; and when a read fails before any \<open>iq\<close> element it returns
  the error of that read.
\<close>

theorem authenticate_ends:
  assumes "''iq'' @ NsJabberClient lib \<noteq> ''stream'' @ NsStream lib"
    and "''iq'' @ NsJabberClient lib \<noteq> ''proceed'' @ NsTLS lib"
    and "connection c = Some cn"
  shows "((\<exists>c' w'. authenticate lib (c, w) = Some (Return None, c', w')) \<longleftrightarrow>
          (\<exists>pre st rest. incoming cn = pre @ Inr st # rest
             \<and> (\<forall>r \<in> set pre. \<not> ends_loop lib r)
             \<and> tag (element st) = ''iq'' @ NsJabberClient lib
             \<and> type_result (Attr (element st))))
    \<and> (\<forall>pre st rest. incoming cn = pre @ Inr st # rest
             \<and> (\<forall>r \<in> set pre. \<not> ends_loop lib r)
             \<and> tag (element st) = ''iq'' @ NsJabberClient lib
             \<and> \<not> type_result (Attr (element st)) \<longrightarrow>
          (\<exists>c' w'. authenticate lib (c, w) =
                      Some (Return (Some (errors_New ''could not authenticate'')), c', w')))
    \<and> (\<forall>pre err rest. incoming cn = pre @ Inl err # rest
             \<and> (\<forall>r \<in> set pre. \<not> ends_loop lib r) \<longrightarrow>
          (\<exists>c' w'. authenticate lib (c, w) = Some (Return (Some err), c', w')))
    \<and> (\<forall>x. errors_New ''could not authenticate'' \<noteq> XmppError x)"
proof -
  let ?P = "\<lambda>r. \<not> ends_loop lib r"
  note ret = authenticate_returns [OF assms(3), of lib w]
  note dw = authenticate_loop_dropWhile [OF assms(1,2), of c "incoming cn"
      "trace w @ [Call (Conn_Stream (Client.Id c) host)]"]
  have a: "(\<exists>c' w'. authenticate lib (c, w) = Some (Return None, c', w')) \<longleftrightarrow>
          (\<exists>pre st rest. incoming cn = pre @ Inr st # rest
             \<and> (\<forall>r \<in> set pre. \<not> ends_loop lib r)
             \<and> tag (element st) = ''iq'' @ NsJabberClient lib
             \<and> type_result (Attr (element st)))" (is "?L \<longleftrightarrow> ?R")
  proof
    assume ?L
    then have "map_option fst (authenticate_loop lib c (incoming cn)
      (trace w @ [Call (Conn_Stream (Client.Id c) host)])) = Some None"
      using ret by simp
    then obtain st rest where d: "dropWhile ?P (incoming cn) = Inr st # rest"
      and t: "type_result (Attr (element st))"
      unfolding dw by (auto split: list.splits sum.splits if_splits)
    from dropWhile_decompose [OF d] obtain pre where
      "incoming cn = pre @ Inr st # rest" "\<forall>r \<in> set pre. ?P r" "\<not> ?P (Inr st)"
      by blast
    then show ?R
      using t by (auto simp: ends_loop_def)
  next
    assume ?R
    then obtain pre st rest where i: "incoming cn = pre @ Inr st # rest"
      and p: "\<forall>r \<in> set pre. ?P r"
      and q: "tag (element st) = ''iq'' @ NsJabberClient lib"
      and t: "type_result (Attr (element st))"
      by blast
    have "dropWhile ?P (incoming cn) = Inr st # rest"
      unfolding i using p q by (intro dropWhile_first) (simp_all add: ends_loop_def)
    then show ?L
      using ret dw t by simp
  qed
  have b: "\<exists>c' w'. authenticate lib (c, w) =
                      Some (Return (Some (errors_New ''could not authenticate'')), c', w')"
    if i: "incoming cn = pre @ Inr st # rest" and p: "\<forall>r \<in> set pre. ?P r"
      and q: "tag (element st) = ''iq'' @ NsJabberClient lib"
      and t: "\<not> type_result (Attr (element st))" for pre st rest
  proof -
    have "dropWhile ?P (incoming cn) = Inr st # rest"
      unfolding i using p q by (intro dropWhile_first) (simp_all add: ends_loop_def)
    then show ?thesis
      using ret dw t by simp
  qed
  have c: "\<exists>c' w'. authenticate lib (c, w) = Some (Return (Some err), c', w')"
    if i: "incoming cn = pre @ Inl err # rest" and p: "\<forall>r \<in> set pre. ?P r" for pre err rest
  proof -
    have "dropWhile ?P (incoming cn) = Inl err # rest"
      unfolding i using p by (intro dropWhile_first) (simp_all add: ends_loop_def)
    then show ?thesis
      using ret dw by simp
  qed
  show ?thesis
    using a b c by blast
qed

theorem authenticate_ends_witness:
  "''iq'' @ NsJabberClient example_lib \<noteq> ''stream'' @ NsStream example_lib
   \<and> ''iq'' @ NsJabberClient example_lib \<noteq> ''proceed'' @ NsTLS example_lib
   \<and> connection (bob [Inr plain_features, Inr iq_result])
        = Some (reading [Inr plain_features, Inr iq_result])
   \<and> (\<exists>c' w'. authenticate example_lib (bob [Inr plain_features, Inr iq_result], dialling [])
                 = Some (Return None, c', w'))
   \<and> (\<exists>c' w'. authenticate example_lib (bob [Inr plain_features, Inr iq_error], dialling [])
                 = Some (Return (Some (errors_New ''could not authenticate'')), c', w'))
   \<and> (\<exists>c' w'. authenticate example_lib
                   (bob [Inr tls_features, Inr tls_failure, Inl (XmppError ''EOF'')], dialling [])
                 = Some (Return (Some (XmppError ''EOF'')), c', w'))"
proof -
  let ?ok = "[Inr plain_features, Inr iq_result]"
  let ?bad = "[Inr plain_features, Inr iq_error]"
  let ?eof = "[Inr tls_features, Inr tls_failure, Inl (XmppError ''EOF'')]"
  have d: "''iq'' @ NsJabberClient example_lib \<noteq> ''stream'' @ NsStream example_lib"
    "''iq'' @ NsJabberClient example_lib \<noteq> ''proceed'' @ NsTLS example_lib"
    by code_simp+
  have c: "connection (bob ?ok) = Some (reading ?ok)"
    "connection (bob ?bad) = Some (reading ?bad)"
    "connection (bob ?eof) = Some (reading ?eof)"
    by code_simp+
  have ok: "incoming (reading ?ok) = [Inr plain_features] @ Inr iq_result # []"
    "\<forall>r \<in> set [Inr plain_features]. \<not> ends_loop example_lib r"
    "tag (element iq_result) = ''iq'' @ NsJabberClient example_lib"
    "type_result (Attr (element iq_result))"
    by code_simp+
  have bad: "incoming (reading ?bad) = [Inr plain_features] @ Inr iq_error # []"
    "tag (element iq_error) = ''iq'' @ NsJabberClient example_lib"
    "\<not> type_result (Attr (element iq_error))"
    by code_simp+
  have eof: "incoming (reading ?eof)
      = [Inr tls_features, Inr tls_failure] @ Inl (XmppError ''EOF'') # []"
    "\<forall>r \<in> set [Inr tls_features, Inr tls_failure]. \<not> ends_loop example_lib r"
    by code_simp+
  have 1: "\<exists>c' w'. authenticate example_lib (bob ?ok, dialling []) = Some (Return None, c', w')"
    using authenticate_ends [OF d c(1), of "dialling []"] ok by blast
  have 2: "\<exists>c' w'. authenticate example_lib (bob ?bad, dialling [])
                 = Some (Return (Some (errors_New ''could not authenticate'')), c', w')"
    using authenticate_ends [OF d c(2), of "dialling []"] bad ok(2) by blast
  have 3: "\<exists>c' w'. authenticate example_lib (bob ?eof, dialling [])
                 = Some (Return (Some (XmppError ''EOF'')), c', w')"
    using authenticate_ends [OF d c(3), of "dialling []"] eof by blast
  show ?thesis
    using d c(1) 1 2 3 by blast
qed

subsection \<open>The retry loops of listen\<close>

lemma listen_panic:
  "listen_iteration lib s = Some (Panic p, s') \<Longrightarrow> listen lib s = Some (p, s')"
  by (subst listen.simps) simp

lemma listen_continue:
  "listen_iteration lib s = Some (Return u, s') \<Longrightarrow> listen lib s = listen lib s'"
  by (subst listen.simps) simp

text \<open>
  What the retry loops do when \<open>connect\<close> fails at once: the first \<open>Dial\<close> error takes
  the \<open>goto\<close>, and the loop body of \<open>listen\<close> goes on with the handle that \<open>Dial\<close>
  returned with the error.
\<close>

lemma listen_inner_refused:
  "i < 11 \<Longrightarrow> dials w = (h, Some e) # ds \<Longrightarrow>
   listen_inner lib i err (c, w) =
     Some (Return Goto_Reconnected, c\<lparr>connection := h\<rparr>,
           w\<lparr>dials := ds, trace := trace w @ [Sleep i, Dial host]\<rparr>)"
  by (subst listen_inner.simps) (simp add: connect_def)

lemma listen_reconnect_refused:
  "dials w = (h, Some e) # ds \<Longrightarrow>
   listen_reconnect lib err (c, w) =
     Some (Return (), c\<lparr>connection := h\<rparr>,
           w\<lparr>dials := ds, trace := trace w @ [Sleep 1, Dial host]\<rparr>)"
  by (subst listen_reconnect_def, subst listen_outer.simps)
    (simp add: listen_inner_refused)

text \<open>
  C1, at a run where the read fails, the first \<open>Dial\<close> and its authentication succeed
  and the second \<open>Dial\<close> is refused: after the successful \<open>connect\<close> the loop does not
  leave; it sleeps two seconds and connects again, and the loop body goes on only after
  the attempt that failed, with the nil handle of that attempt.
\<close>

theorem reconnect_continues_after_success:
  "(case listen_iteration example_lib
           (bob [Inl (XmppError ''EOF'')], dialling [accepting, refusing]) of
      Some (Return u, c', w') \<Rightarrow>
        connection c' = None \<and> dials w' = [] \<and>
        trace w' = [Sleep 1, Dial host, Call (Conn_Stream ''bob@chat.hipchat.com'' host),
                    Go_listen, Go_onConnect_send True, Sleep 2, Dial host]
    | _ \<Rightarrow> False)"
  by code_simp

text \<open>
  C2, at two runs after a failed read. When all fifty \<open>Dial\<close>s and authentications
  succeed, the loops run out and \<open>listen\<close> panics, with the nil error, after the five
  rounds (the sleeps between rounds are 0, 60, 120, 180 and 240 seconds). When the first
  \<open>Dial\<close> is refused, the loop body ends without a panic after that one attempt.
\<close>

theorem reconnect_panics_after_50_successes:
  "(case listen_iteration example_lib
           (bob [Inl (XmppError ''EOF'')], dialling (replicate 50 accepting)) of
      Some (Panic p, c', w') \<Rightarrow>
        p = Panic_value None \<and> dials w' = [] \<and>
        length (filter (\<lambda>e. e = Go_listen) (trace w')) = 50 \<and>
        filter (\<lambda>e. e \<in> set (map Sleep [0, 60, 120, 180, 240])) (trace w')
          = map Sleep [0, 60, 120, 180, 240]
    | _ \<Rightarrow> False)
   \<and> (case listen_iteration example_lib
             (bob [Inl (XmppError ''EOF'')], dialling (replicate 50 refusing)) of
        Some (Return u, c', w') \<Rightarrow>
          connection c' = None \<and> dials w' = replicate 49 refusing \<and>
          trace w' = [Sleep 1, Dial host]
      | _ \<Rightarrow> False)"
  by code_simp

end
